theory Spec2Isabelle
  imports Complex_Main "HOL-Library.Word"
begin

section \<open>JavaScript values read by the handlers\<close>

text \<open>
  The handlers of \<^verbatim>\<open>server.js\<close> read the fields of \<^verbatim>\<open>req.body\<close> and of a stored
  document and combine them with \<^verbatim>\<open>||\<close>. A field of \<^verbatim>\<open>req.body\<close> is a text field of a
  multipart form (parsed by multer) or a value of a JSON body (parsed by
  \<^verbatim>\<open>express.json()\<close>, line 13); multer's repeated and bracketed field names and JSON
  both give arrays and objects. A field of a document is a string, a number or a Date.
  An object is the list of its own properties, each key once.

  A number is a rational or an infinity. \<^verbatim>\<open>NaN\<close> is never the value of a JSON number nor
  of a stored rating; it only arises from \<^verbatim>\<open>Number(s)\<close>, where it is the result \<open>None\<close>.
  A Date is its time value in milliseconds (a valid date; an invalid date never leaves a
  cast).
\<close>

datatype jsnum = NegInf | Fin rat | PosInf

datatype jsval =
    JUndefined
  | JNull
  | JBool bool
  | JNum jsnum
  | JStr string
  | JDate int
  | JArr "jsval list"
  | JObj "(string \<times> jsval) list"

fun num_le :: "jsnum \<Rightarrow> jsnum \<Rightarrow> bool" where
  "num_le NegInf _ = True"
| "num_le _ PosInf = True"
| "num_le (Fin a) (Fin b) = (a \<le> b)"
| "num_le _ _ = False"

fun num_less :: "jsnum \<Rightarrow> jsnum \<Rightarrow> bool" where
  "num_less PosInf _ = False"
| "num_less _ NegInf = False"
| "num_less (Fin a) (Fin b) = (a < b)"
| "num_less _ _ = True"

text \<open>ToBoolean: what \<^verbatim>\<open>!x\<close>, \<^verbatim>\<open>if (x)\<close> and \<^verbatim>\<open>x || y\<close> test.\<close>

fun truthy :: "jsval \<Rightarrow> bool" where
  "truthy JUndefined = False"
| "truthy JNull = False"
| "truthy (JBool b) = b"
| "truthy (JNum n) = (n \<noteq> Fin 0)"
| "truthy (JStr s) = (s \<noteq> [])"
| "truthy (JDate d) = True"
| "truthy (JArr xs) = True"
| "truthy (JObj kvs) = True"

definition js_or :: "jsval \<Rightarrow> jsval \<Rightarrow> jsval" where
  "js_or a b = (if truthy a then a else b)"

section \<open>The environment of a request\<close>

text \<open>
  What the handlers obtain from outside the repository: the conversions of the JavaScript
  runtime that the casts of mongoose call, the upload service, and the identifier that
  \<^verbatim>\<open>new Movie(...)\<close> generates. They are parameters, so every theorem below holds for
  each of them.
\<close>

record upload_result =
  secure_url :: string

record env =
  Number_str :: "string \<Rightarrow> jsnum option"  \<comment> \<open>\<^verbatim>\<open>Number(s)\<close>; \<open>None\<close> is \<^verbatim>\<open>NaN\<close>\<close>
  String_num :: "jsnum \<Rightarrow> string"  \<comment> \<open>\<^verbatim>\<open>n.toString()\<close>\<close>
  String_date :: "int \<Rightarrow> string"  \<comment> \<open>\<^verbatim>\<open>d.toString()\<close>\<close>
  Date_num :: "jsnum \<Rightarrow> int option"  \<comment> \<open>\<^verbatim>\<open>new Date(n)\<close>; \<open>None\<close> is an invalid date\<close>
  Date_str :: "string \<Rightarrow> int option"  \<comment> \<open>\<^verbatim>\<open>new Date(s)\<close>\<close>
  Date_arr :: "jsval list \<Rightarrow> int option"  \<comment> \<open>\<^verbatim>\<open>new Date(a)\<close> for an array \<^verbatim>\<open>a\<close>\<close>
  upload_stream :: "8 word list \<Rightarrow> string + upload_result"
    \<comment> \<open>\<^verbatim>\<open>cloudinary.v2.uploader.upload_stream\<close>: an error message or the result\<close>
  new_ObjectId :: "96 word"  \<comment> \<open>the \<^verbatim>\<open>_id\<close> given to a new document\<close>

section \<open>Identifiers\<close>

text \<open>
  An ObjectId is 12 bytes. \<^verbatim>\<open>findById\<close> and its siblings cast the route parameter, a
  string, to an ObjectId: a string of 24 hexadecimal characters is read as one, any other
  string makes the query fail with a CastError. (Older drivers also read a string of
  exactly 12 characters as the 12 bytes; that form is not modelled.) A document's
  \<^verbatim>\<open>_id\<close> is rendered in JSON as 24 lower-case hexadecimal characters.
\<close>

type_synonym ObjectId = "96 word"

definition hexDigit :: "char \<Rightarrow> nat option" where
  "hexDigit c =
     (let n = (of_char c :: nat) in
      if 48 \<le> n \<and> n \<le> 57 then Some (n - 48)
      else if 97 \<le> n \<and> n \<le> 102 then Some (n - 87)
      else if 65 \<le> n \<and> n \<le> 70 then Some (n - 55)
      else None)"

fun parseHex :: "nat \<Rightarrow> string \<Rightarrow> nat option" where
  "parseHex acc [] = Some acc"
| "parseHex acc (c # cs) =
     (case hexDigit c of None \<Rightarrow> None | Some d \<Rightarrow> parseHex (16 * acc + d) cs)"

definition castObjectId :: "string \<Rightarrow> ObjectId option" where
  "castObjectId s =
     (if length s = 24 then map_option word_of_nat (parseHex 0 s) else None)"

definition hexChar :: "nat \<Rightarrow> char" where
  "hexChar d = ''0123456789abcdef'' ! d"

fun hexString :: "nat \<Rightarrow> nat \<Rightarrow> string" where
  "hexString 0 n = []"
| "hexString (Suc k) n = hexString k (n div 16) @ [hexChar (n mod 16)]"

definition toHexString :: "ObjectId \<Rightarrow> string" where
  "toHexString w = hexString 24 (unat w)"

section \<open>The Movie schema and its casts\<close>

datatype error =
    CastError string  \<comment> \<open>the path whose value could not be cast\<close>
  | ValidationError "string list"  \<comment> \<open>the paths that failed validation\<close>
  | UploadError string
  | TypeError  \<comment> \<open>reading a property of an undefined \<^verbatim>\<open>req.body\<close>\<close>
  | DuplicateKey

text \<open>
  A stored document (lines 34 to 41). A path that is absent or null is \<open>None\<close>: both
  read as a falsy value and both fail \<^verbatim>\<open>required\<close>.
\<close>

record movie =
  mid :: ObjectId
  title :: "string option"
  description :: "string option"
  imageUrl :: "string option"
  genre :: "string option"
  rating :: "jsnum option"
  releaseDate :: "int option"

text \<open>A plain object with the six keys: \<^verbatim>\<open>req.body\<close>, the argument of
  \<^verbatim>\<open>new Movie\<close> and the update of \<^verbatim>\<open>findByIdAndUpdate\<close>. A key that is missing is
  \<open>JUndefined\<close>.\<close>

record fields =
  f_title :: jsval
  f_description :: jsval
  f_imageUrl :: jsval
  f_genre :: jsval
  f_rating :: jsval
  f_releaseDate :: jsval

text \<open>
  The casts of the schema types String, Number and Date of mongoose; \<open>p\<close> is the path
  named by the CastError. A nullish value stays null. The String cast takes a non-empty
  string \<^verbatim>\<open>_id\<close> of an object and refuses every other object and every array. The Number
  cast first replaces an object by its \<^verbatim>\<open>_id\<close> when it has one, then reads the empty
  string as null and refuses what is not a number. The Date cast refuses a boolean, an
  object and an invalid date.
\<close>

definition own_id :: "jsval \<Rightarrow> jsval" where
  \<comment> \<open>\<^verbatim>\<open>value._id\<close>\<close>
  "own_id v =
     (case v of
        JObj kvs \<Rightarrow> (case map_of kvs ''_id'' of None \<Rightarrow> JUndefined | Some x \<Rightarrow> x)
      | _ \<Rightarrow> JUndefined)"

fun castString :: "env \<Rightarrow> string \<Rightarrow> jsval \<Rightarrow> error + string option" where
  "castString e p JUndefined = Inr None"
| "castString e p JNull = Inr None"
| "castString e p (JStr s) = Inr (Some s)"
| "castString e p (JBool b) = Inr (Some (if b then ''true'' else ''false''))"
| "castString e p (JNum n) = Inr (Some (String_num e n))"
| "castString e p (JDate d) = Inr (Some (String_date e d))"
| "castString e p (JArr xs) = Inl (CastError p)"
| "castString e p (JObj kvs) =
     (case own_id (JObj kvs) of
        JStr s \<Rightarrow> if s \<noteq> [] then Inr (Some s) else Inl (CastError p)
      | _ \<Rightarrow> Inl (CastError p))"

fun castNumber_value :: "env \<Rightarrow> string \<Rightarrow> jsval \<Rightarrow> error + jsnum option" where
  "castNumber_value e p JUndefined = Inr None"
| "castNumber_value e p JNull = Inr None"
| "castNumber_value e p (JStr s) =
     (if s = [] then Inr None
      else case Number_str e s of None \<Rightarrow> Inl (CastError p) | Some n \<Rightarrow> Inr (Some n))"
| "castNumber_value e p (JBool b) = Inr (Some (Fin (if b then 1 else 0)))"
| "castNumber_value e p (JNum n) = Inr (Some n)"
| "castNumber_value e p (JDate d) = Inr (Some (Fin (of_int d)))"
| "castNumber_value e p (JArr xs) = Inl (CastError p)"
| "castNumber_value e p (JObj kvs) = Inl (CastError p)"

definition castNumber :: "env \<Rightarrow> string \<Rightarrow> jsval \<Rightarrow> error + jsnum option" where
  "castNumber e p v =
     castNumber_value e p (if truthy v \<and> own_id v \<noteq> JUndefined then own_id v else v)"

definition date_or_fail :: "string \<Rightarrow> int option \<Rightarrow> error + int option" where
  "date_or_fail p r = (case r of None \<Rightarrow> Inl (CastError p) | Some d \<Rightarrow> Inr (Some d))"

fun castDate :: "env \<Rightarrow> string \<Rightarrow> jsval \<Rightarrow> error + int option" where
  "castDate e p JUndefined = Inr None"
| "castDate e p JNull = Inr None"
| "castDate e p (JDate d) = Inr (Some d)"
| "castDate e p (JBool b) = Inl (CastError p)"
| "castDate e p (JNum n) = date_or_fail p (Date_num e n)"
| "castDate e p (JStr s) =
     (if s = [] then Inr None
      else case Number_str e s of
        None \<Rightarrow> date_or_fail p (Date_str e s)
      | Some n \<Rightarrow>
          if num_le (Fin 275761) n \<or> num_less n (Fin (- 271820))
          then date_or_fail p (Date_num e n)
          else date_or_fail p (Date_str e s))"
| "castDate e p (JArr xs) = date_or_fail p (Date_arr e xs)"
| "castDate e p (JObj kvs) = Inl (CastError p)"

text \<open>Reading a path of a document gives a JavaScript value.\<close>

definition js_string :: "string option \<Rightarrow> jsval" where
  "js_string x = (case x of None \<Rightarrow> JUndefined | Some s \<Rightarrow> JStr s)"

definition js_number :: "jsnum option \<Rightarrow> jsval" where
  "js_number x = (case x of None \<Rightarrow> JUndefined | Some n \<Rightarrow> JNum n)"

definition js_date :: "int option \<Rightarrow> jsval" where
  "js_date x = (case x of None \<Rightarrow> JUndefined | Some d \<Rightarrow> JDate d)"

text \<open>
  \<^verbatim>\<open>new Movie({...})\<close> casts each value to the type of its path. A value that cannot be
  cast leaves the path unset and is reported when the document is validated.
\<close>

definition cast_failed :: "error + 'a \<Rightarrow> bool" where
  "cast_failed x = (case x of Inl _ \<Rightarrow> True | Inr _ \<Rightarrow> False)"

definition cast_value :: "error + 'a option \<Rightarrow> 'a option" where
  "cast_value x = (case x of Inl _ \<Rightarrow> None | Inr v \<Rightarrow> v)"

definition cast_paths :: "env \<Rightarrow> fields \<Rightarrow> string list" where
  "cast_paths e obj =
     map fst (filter snd
       [(''title'', cast_failed (castString e ''title'' (f_title obj))),
        (''description'', cast_failed (castString e ''description'' (f_description obj))),
        (''imageUrl'', cast_failed (castString e ''imageUrl'' (f_imageUrl obj))),
        (''genre'', cast_failed (castString e ''genre'' (f_genre obj))),
        (''rating'', cast_failed (castNumber e ''rating'' (f_rating obj))),
        (''releaseDate'', cast_failed (castDate e ''releaseDate'' (f_releaseDate obj)))])"

definition new_Movie :: "env \<Rightarrow> fields \<Rightarrow> string list \<times> movie" where
  "new_Movie e obj =
     (cast_paths e obj,
      \<lparr> mid = new_ObjectId e,
        title = cast_value (castString e ''title'' (f_title obj)),
        description = cast_value (castString e ''description'' (f_description obj)),
        imageUrl = cast_value (castString e ''imageUrl'' (f_imageUrl obj)),
        genre = cast_value (castString e ''genre'' (f_genre obj)),
        rating = cast_value (castNumber e ''rating'' (f_rating obj)),
        releaseDate = cast_value (castDate e ''releaseDate'' (f_releaseDate obj)) \<rparr>)"

text \<open>The validators of the schema: \<^verbatim>\<open>required\<close> on every path (for a String, a
  non-empty string), \<^verbatim>\<open>min: 0\<close> and \<^verbatim>\<open>max: 10\<close> on rating.\<close>

definition required_string :: "string option \<Rightarrow> bool" where
  "required_string x = (case x of None \<Rightarrow> False | Some s \<Rightarrow> s \<noteq> [])"

definition rating_ok :: "jsnum option \<Rightarrow> bool" where
  "rating_ok x =
     (case x of None \<Rightarrow> False | Some n \<Rightarrow> num_le (Fin 0) n \<and> num_le n (Fin 10))"

definition invalid_paths :: "movie \<Rightarrow> string list" where
  "invalid_paths m =
     map fst (filter (\<lambda>(p, ok). \<not> ok)
       [(''title'', required_string (title m)),
        (''description'', required_string (description m)),
        (''imageUrl'', required_string (imageUrl m)),
        (''genre'', required_string (genre m)),
        (''rating'', rating_ok (rating m)),
        (''releaseDate'', releaseDate m \<noteq> None)])"

section \<open>The collection\<close>

text \<open>The documents of the collection, in insertion order, addressed by \<^verbatim>\<open>_id\<close>.\<close>

type_synonym collection = "movie list"

definition lookup :: "collection \<Rightarrow> ObjectId \<Rightarrow> movie option" where
  "lookup c i = find (\<lambda>m. mid m = i) c"

text \<open>\<^verbatim>\<open>newMovie.save()\<close>: validation, which reports each path that could not be cast or
  that a validator refuses, once; then the insert, which the unique index on \<^verbatim>\<open>_id\<close>
  refuses for an identifier already in the collection.\<close>

definition schema_paths :: "string list" where
  "schema_paths = [''title'', ''description'', ''imageUrl'', ''genre'', ''rating'', ''releaseDate'']"

definition save :: "string list \<times> movie \<Rightarrow> collection \<Rightarrow> error + movie \<times> collection" where
  "save nm c =
     (let bad = filter (\<lambda>p. p \<in> set (fst nm) \<or> p \<in> set (invalid_paths (snd nm))) schema_paths in
      if bad \<noteq> [] then Inl (ValidationError bad)
      else if lookup c (mid (snd nm)) \<noteq> None then Inl DuplicateKey
      else Inr (snd nm, c @ [snd nm]))"

definition findById :: "collection \<Rightarrow> string \<Rightarrow> error + movie option" where
  "findById c s =
     (case castObjectId s of
        None \<Rightarrow> Inl (CastError ''_id'')
      | Some i \<Rightarrow> Inr (lookup c i))"

definition findByIdAndDelete :: "collection \<Rightarrow> string \<Rightarrow> error + movie option \<times> collection" where
  "findByIdAndDelete c s =
     (case castObjectId s of
        None \<Rightarrow> Inl (CastError ''_id'')
      | Some i \<Rightarrow> Inr (lookup c i, filter (\<lambda>m. mid m \<noteq> i) c))"

text \<open>
  \<^verbatim>\<open>findByIdAndUpdate(id, update, { new: true })\<close>: the update is a \<^verbatim>\<open>$set\<close> of its
  keys, each value cast to the type of its path; a key whose value is \<^verbatim>\<open>undefined\<close> is
  left out of the \<^verbatim>\<open>$set\<close>. The validators do not run on an update. The result is the
  document after the update, or null when there is none. (Older versions of mongoose
  store null for such a key. The update built by the handler has an undefined value only
  for a path that the document does not have, so the document after the update is the
  same under both.)
\<close>

definition set_path :: "jsval \<Rightarrow> 'a option \<Rightarrow> 'a option \<Rightarrow> 'a option" where
  "set_path v cast old = (if v = JUndefined then old else cast)"

record cast_update =
  c_title :: "string option"
  c_description :: "string option"
  c_imageUrl :: "string option"
  c_genre :: "string option"
  c_rating :: "jsnum option"
  c_releaseDate :: "int option"

definition castUpdate :: "env \<Rightarrow> fields \<Rightarrow> error + cast_update" where
  "castUpdate e upd =
     (case castString e ''title'' (f_title upd) of Inl err \<Rightarrow> Inl err | Inr t \<Rightarrow>
     (case castString e ''description'' (f_description upd) of Inl err \<Rightarrow> Inl err | Inr ds \<Rightarrow>
     (case castString e ''imageUrl'' (f_imageUrl upd) of Inl err \<Rightarrow> Inl err | Inr u \<Rightarrow>
     (case castString e ''genre'' (f_genre upd) of Inl err \<Rightarrow> Inl err | Inr g \<Rightarrow>
     (case castNumber e ''rating'' (f_rating upd) of Inl err \<Rightarrow> Inl err | Inr r \<Rightarrow>
     (case castDate e ''releaseDate'' (f_releaseDate upd) of Inl err \<Rightarrow> Inl err | Inr d \<Rightarrow>
        Inr \<lparr> c_title = t, c_description = ds, c_imageUrl = u, c_genre = g, c_rating = r,
              c_releaseDate = d \<rparr>))))))"

definition apply_update :: "fields \<Rightarrow> cast_update \<Rightarrow> movie \<Rightarrow> movie" where
  "apply_update upd cu m =
     m \<lparr> title := set_path (f_title upd) (c_title cu) (title m),
         description := set_path (f_description upd) (c_description cu) (description m),
         imageUrl := set_path (f_imageUrl upd) (c_imageUrl cu) (imageUrl m),
         genre := set_path (f_genre upd) (c_genre cu) (genre m),
         rating := set_path (f_rating upd) (c_rating cu) (rating m),
         releaseDate := set_path (f_releaseDate upd) (c_releaseDate cu) (releaseDate m) \<rparr>"

definition findByIdAndUpdate ::
  "env \<Rightarrow> collection \<Rightarrow> string \<Rightarrow> fields \<Rightarrow> error + movie option \<times> collection" where
  "findByIdAndUpdate e c s upd =
     (case castObjectId s of
        None \<Rightarrow> Inl (CastError ''_id'')
      | Some i \<Rightarrow>
          (case castUpdate e upd of
             Inl err \<Rightarrow> Inl err
           | Inr cu \<Rightarrow>
               Inr (map_option (apply_update upd cu) (lookup c i),
                    map (\<lambda>m. if mid m = i then apply_update upd cu m else m) c)))"

section \<open>The request handlers\<close>

text \<open>
  The state that the handlers change: the collection, and the buffers that were sent to
  the upload service. A request carries the route parameter \<^verbatim>\<open>req.params.id\<close>,
  \<^verbatim>\<open>req.body\<close> (undefined when no body was parsed) and \<^verbatim>\<open>req.file\<close> (undefined when the
  form has no file \<^verbatim>\<open>image\<close>). A failure of the database itself, such as a lost
  connection, is not modelled: the queries fail only on a value they cannot cast, on the
  validators, and on a duplicate identifier.
\<close>

record state =
  db :: collection
  uploads :: "8 word list list"

record multer_file =
  buffer :: "8 word list"

record request =
  params_id :: string
  req_body :: "fields option"
  req_file :: "multer_file option"

datatype json =
    MovieJson movie
  | MoviesJson "movie list"
  | NullJson
  | Message string
  | MessageError string error

record response =
  status :: nat
  json :: json

definition failure :: "nat \<Rightarrow> string \<Rightarrow> error \<Rightarrow> response" where
  "failure code msg err = \<lparr> status = code, json = MessageError msg err \<rparr>"

text \<open>The promise around \<^verbatim>\<open>upload_stream\<close> (lines 60 to 69 and 124 to 133): the buffer is
  sent, and the promise resolves to the result or rejects with the error.\<close>

definition upload_image :: "env \<Rightarrow> state \<Rightarrow> multer_file \<Rightarrow> (error + upload_result) \<times> state" where
  "upload_image e st f =
     ((case upload_stream e (buffer f) of
         Inl msg \<Rightarrow> Inl (UploadError msg)
       | Inr result \<Rightarrow> Inr result),
      st \<lparr> uploads := uploads st @ [buffer f] \<rparr>)"

text \<open>\<^verbatim>\<open>app.post("/api/movies", ...)\<close>, lines 47 to 90.\<close>

definition post_api_movies :: "env \<Rightarrow> state \<Rightarrow> request \<Rightarrow> response \<times> state" where
  "post_api_movies e st req =
     (case req_file req of
        None \<Rightarrow> (\<lparr> status = 400, json = Message ''No file uploaded'' \<rparr>, st)
      | Some f \<Rightarrow>
          (case upload_image e st f of
             (Inl err, st1) \<Rightarrow> (failure 500 ''Error uploading image'' err, st1)
           | (Inr result, st1) \<Rightarrow>
               (case req_body req of
                  None \<Rightarrow> (failure 500 ''Error uploading image'' TypeError, st1)
                | Some b \<Rightarrow>
                    (case save
                            (new_Movie e
                               \<lparr> f_title = f_title b,
                                 f_description = f_description b,
                                 f_imageUrl = JStr (secure_url result),
                                 f_genre = f_genre b,
                                 f_rating = f_rating b,
                                 f_releaseDate = f_releaseDate b \<rparr>)
                            (db st1) of
                       Inl err \<Rightarrow> (failure 500 ''Error uploading image'' err, st1)
                     | Inr (savedMovie, c) \<Rightarrow>
                         (\<lparr> status = 201, json = MovieJson savedMovie \<rparr>,
                          st1 \<lparr> db := c \<rparr>)))))"


text \<open>\<^verbatim>\<open>app.get("/api/movies/:id", ...)\<close>, lines 103 to 111.\<close>

definition get_api_movies_id :: "state \<Rightarrow> request \<Rightarrow> response \<times> state" where
  "get_api_movies_id st req =
     (case findById (db st) (params_id req) of
        Inl err \<Rightarrow> (failure 500 ''Error fetching movie'' err, st)
      | Inr None \<Rightarrow> (\<lparr> status = 404, json = Message ''Movie not found'' \<rparr>, st)
      | Inr (Some movie) \<Rightarrow> (\<lparr> status = 200, json = MovieJson movie \<rparr>, st))"

text \<open>\<^verbatim>\<open>app.put("/api/movies/:id", ...)\<close>, lines 114 to 156. The image is uploaded (lines
  122 to 135) before \<^verbatim>\<open>req.body\<close> is read (lines 141 to 146).\<close>

definition update_of :: "fields \<Rightarrow> movie \<Rightarrow> jsval \<Rightarrow> fields" where
  \<comment> \<open>the object literal of lines 140 to 147\<close>
  "update_of b movie imageUrl' =
     \<lparr> f_title = js_or (f_title b) (js_string (title movie)),
       f_description = js_or (f_description b) (js_string (description movie)),
       f_imageUrl = imageUrl',
       f_genre = js_or (f_genre b) (js_string (genre movie)),
       f_rating = js_or (f_rating b) (js_number (rating movie)),
       f_releaseDate = js_or (f_releaseDate b) (js_date (releaseDate movie)) \<rparr>"

definition put_api_movies_id :: "env \<Rightarrow> state \<Rightarrow> request \<Rightarrow> response \<times> state" where
  "put_api_movies_id e st req =
     (case findById (db st) (params_id req) of
        Inl err \<Rightarrow> (failure 400 ''Error updating movie'' err, st)
      | Inr None \<Rightarrow> (\<lparr> status = 404, json = Message ''Movie not found'' \<rparr>, st)
      | Inr (Some movie) \<Rightarrow>
          (case (case req_file req of
                   None \<Rightarrow> (Inr (js_string (imageUrl movie)), st)
                 | Some f \<Rightarrow>
                     (case upload_image e st f of
                        (Inl err, st1) \<Rightarrow> (Inl err, st1)
                      | (Inr result, st1) \<Rightarrow> (Inr (JStr (secure_url result)), st1))) of
             (Inl err, st1) \<Rightarrow> (failure 400 ''Error updating movie'' err, st1)
           | (Inr imageUrl', st1) \<Rightarrow>
               (case req_body req of
                  None \<Rightarrow> (failure 400 ''Error updating movie'' TypeError, st1)
                | Some b \<Rightarrow>
                    (case findByIdAndUpdate e (db st1) (params_id req)
                            (update_of b movie imageUrl') of
                       Inl err \<Rightarrow> (failure 400 ''Error updating movie'' err, st1)
                     | Inr (updatedMovie, c) \<Rightarrow>
                         (\<lparr> status = 200,
                            json = (case updatedMovie of
                                      None \<Rightarrow> NullJson | Some m \<Rightarrow> MovieJson m) \<rparr>,
                          st1 \<lparr> db := c \<rparr>)))))"

text \<open>\<^verbatim>\<open>app.delete("/api/movies/:id", ...)\<close>, lines 160 to 169.\<close>

definition delete_api_movies_id :: "state \<Rightarrow> request \<Rightarrow> response \<times> state" where
  "delete_api_movies_id st req =
     (case findByIdAndDelete (db st) (params_id req) of
        Inl err \<Rightarrow> (failure 500 ''Error deleting movie'' err, st)
      | Inr (None, c) \<Rightarrow> (\<lparr> status = 404, json = Message ''Movie not found'' \<rparr>, st \<lparr> db := c \<rparr>)
      | Inr (Some deletedMovie, c) \<Rightarrow>
          (\<lparr> status = 200, json = Message ''Movie deleted successfully'' \<rparr>, st \<lparr> db := c \<rparr>))"

section \<open>Properties of requests, documents and the environment\<close>






section \<open>Example data\<close>

text \<open>
  An environment, a request and a collection for the examples that follow. The
  conversions are those of JavaScript on the values the examples use: \<^verbatim>\<open>Number("9")\<close> is
  9, \<^verbatim>\<open>Number("abc")\<close> is \<^verbatim>\<open>NaN\<close>, \<^verbatim>\<open>new Date("2010-07-16")\<close> has the time value
  1279238400000 and so has \<^verbatim>\<open>new Date(["2010-07-16"])\<close>, \<^verbatim>\<open>new Date(n)\<close> truncates \<open>n\<close>
  and is invalid beyond 8.64e15. The upload
  service refuses an empty buffer and answers every other one with a URL.
\<close>

definition demo_env :: env where
  "demo_env =
     \<lparr> Number_str = map_of [(''0'', Fin 0), (''9'', Fin 9), (''11'', Fin 11)],
       String_num =
         (\<lambda>n. case n of
                NegInf \<Rightarrow> ''-Infinity''
              | PosInf \<Rightarrow> ''Infinity''
              | Fin r \<Rightarrow> if r = 9 then ''9'' else ''0''),
       String_date = (\<lambda>d. ''Fri Jul 16 2010 00:00:00 GMT+0000''),
       Date_num =
         (\<lambda>n. case n of
                Fin r \<Rightarrow>
                  if \<bar>r\<bar> \<le> 8640000000000000
                  then Some (if 0 \<le> r then \<lfloor>r\<rfloor> else \<lceil>r\<rceil>) else None
              | _ \<Rightarrow> None),
       Date_str = map_of [(''2010-07-16'', 1279238400000)],
       Date_arr =
         (\<lambda>xs. case xs of
                 [JStr s] \<Rightarrow> map_of [(''2010-07-16'', 1279238400000)] s
               | _ \<Rightarrow> None),
       upload_stream =
         (\<lambda>buf. if buf = [] then Inl ''Empty file''
                else if buf = [255, 216, 255]
                then Inr \<lparr> secure_url = ''https://res.cloudinary.com/demo/image/upload/a.jpg'' \<rparr>
                else Inr \<lparr> secure_url = ''https://res.cloudinary.com/demo/image/upload/b.jpg'' \<rparr>),
       new_ObjectId = 0x507f1f77bcf86cd799439011 \<rparr>"

definition inception :: fields where
  "inception =
     \<lparr> f_title = JStr ''Inception'',
       f_description = JStr ''A thief who steals secrets through dreams'',
       f_imageUrl = JUndefined,
       f_genre = JStr ''Sci-Fi'',
       f_rating = JStr ''9'',
       f_releaseDate = JStr ''2010-07-16'' \<rparr>"

definition inception_movie :: movie where
  "inception_movie =
     \<lparr> mid = 0x507f1f77bcf86cd799439011,
       title = Some ''Inception'',
       description = Some ''A thief who steals secrets through dreams'',
       imageUrl = Some ''https://res.cloudinary.com/demo/image/upload/a.jpg'',
       genre = Some ''Sci-Fi'',
       rating = Some (Fin 9),
       releaseDate = Some 1279238400000 \<rparr>"

definition no_fields :: fields where
  "no_fields =
     \<lparr> f_title = JUndefined, f_description = JUndefined, f_imageUrl = JUndefined,
       f_genre = JUndefined, f_rating = JUndefined, f_releaseDate = JUndefined \<rparr>"

definition empty_state :: state where
  "empty_state = \<lparr> db = [], uploads = [] \<rparr>"

definition inception_state :: state where
  "inception_state = \<lparr> db = [inception_movie], uploads = [[255, 216, 255]] \<rparr>"

section \<open>Identifiers survive the round trip through their text\<close>

lemma hexDigit_hexChar: "d < 16 \<Longrightarrow> hexDigit (hexChar d) = Some d"
proof -
  have "\<forall>d \<in> set [0..<16]. hexDigit (hexChar d) = Some d" by code_simp
  then show "d < 16 \<Longrightarrow> hexDigit (hexChar d) = Some d" by simp
qed

lemma parseHex_snoc:
  "parseHex acc (cs @ [c]) =
     (case parseHex acc cs of
        None \<Rightarrow> None
      | Some a \<Rightarrow> (case hexDigit c of None \<Rightarrow> None | Some d \<Rightarrow> Some (16 * a + d)))"
  by (induction cs arbitrary: acc) (auto split: option.splits)

lemma length_hexString: "length (hexString k n) = k"
  by (induction k arbitrary: n) auto

lemma parseHex_hexString: "parseHex 0 (hexString k n) = Some (n mod 16 ^ k)"
proof (induction k arbitrary: n)
  case 0
  show ?case by simp
next
  case (Suc k)
  have "16 * (n div 16 mod 16 ^ k) + n mod 16 = n mod (16 * 16 ^ k)"
    by (simp add: mod_mult2_eq add.commute)
  then show ?case
    by (simp add: parseHex_snoc Suc hexDigit_hexChar)
qed

lemma castObjectId_toHexString: "castObjectId (toHexString w) = Some w"
proof -
  have "unat w < 2 ^ 96" using unsigned_less [of w] by simp
  then have "unat w mod 16 ^ 24 = unat w" by simp
  then show ?thesis
    by (simp add: castObjectId_def toHexString_def length_hexString parseHex_hexString
        del: hexString.simps)
qed

section \<open>Evaluation of the examples\<close>

lemma cast_demo_id:
  "castObjectId ''507f1f77bcf86cd799439011'' = Some 0x507f1f77bcf86cd799439011"
  by (simp add: castObjectId_def hexDigit_def)

lemmas demo_defs =
  demo_env_def inception_def inception_movie_def no_fields_def empty_state_def
  inception_state_def

lemmas handler_defs =
  post_api_movies_def get_api_movies_id_def put_api_movies_id_def delete_api_movies_id_def
  findById_def findByIdAndDelete_def findByIdAndUpdate_def save_def new_Movie_def
  cast_paths_def cast_failed_def cast_value_def schema_paths_def castUpdate_def
  castNumber_def own_id_def
  invalid_paths_def required_string_def rating_ok_def upload_image_def
  update_of_def apply_update_def set_path_def js_or_def js_string_def js_number_def
  js_date_def lookup_def failure_def date_or_fail_def



section \<open>The collection: lookup, update and delete\<close>

lemma lookup_None_iff: "lookup c i = None \<longleftrightarrow> (\<forall>m\<in>set c. mid m \<noteq> i)"
  by (auto simp: lookup_def find_None_iff)

lemma lookup_SomeD: "lookup c i = Some m \<Longrightarrow> m \<in> set c \<and> mid m = i"
  by (auto simp: lookup_def find_Some_iff in_set_conv_nth)

lemma mid_apply_update: "mid (apply_update upd cu m) = mid m"
  by (simp add: apply_update_def)

lemma lookup_map_update:
  assumes "\<And>x. mid (f x) = mid x"
  shows "lookup (map (\<lambda>x. if mid x = i then f x else x) c) i = map_option f (lookup c i)"
  using assms by (induction c) (auto simp: lookup_def)


lemma lookup_filter_other: "lookup (filter (\<lambda>m. mid m \<noteq> i) c) i = None"
  by (simp add: lookup_None_iff)

lemma filter_absent: "lookup c i = None \<Longrightarrow> filter (\<lambda>m. mid m \<noteq> i) c = c"
  by (simp add: lookup_None_iff)

lemma lookup_append_fresh:
  "\<forall>m\<in>set c. mid m \<noteq> mid x \<Longrightarrow> lookup (c @ [x]) (mid x) = Some x"
  by (induction c) (auto simp: lookup_def)

lemma rating_invalid: "\<not> rating_ok (rating m) \<Longrightarrow> ''rating'' \<in> set (invalid_paths m)"
  by (simp add: invalid_paths_def)

lemma save_invalid_rating:
  "''rating'' \<in> set (invalid_paths (snd nm)) \<Longrightarrow> \<exists>bad. save nm c = Inl (ValidationError bad)"
  by (simp add: save_def Let_def filter_empty_conv schema_paths_def)

lemma save_valid:
  "fst nm = [] \<Longrightarrow> invalid_paths (snd nm) = [] \<Longrightarrow> lookup c (mid (snd nm)) = None \<Longrightarrow>
   save nm c = Inr (snd nm, c @ [snd nm])"
  by (simp add: save_def)

section \<open>Creating a movie\<close>

text \<open>
  C3: a create request with no attached file is answered 400 with the message
  "No file uploaded"; the state is the one before the request, so no document is stored
  and no buffer is sent to the upload service.
\<close>

theorem C3_post_without_file:
  "req_file req = None \<Longrightarrow>
   post_api_movies e st req = (\<lparr> status = 400, json = Message ''No file uploaded'' \<rparr>, st)"
  by (simp add: post_api_movies_def)

theorem C3_post_without_file_witness:
  "req_file \<lparr> params_id = [], req_body = Some inception, req_file = None \<rparr> = None \<and>
   post_api_movies demo_env empty_state
       \<lparr> params_id = [], req_body = Some inception, req_file = None \<rparr>
     = (\<lparr> status = 400, json = Message ''No file uploaded'' \<rparr>, empty_state)"
  using C3_post_without_file
    [of "\<lparr> params_id = [], req_body = Some inception, req_file = None \<rparr>" demo_env empty_state]
  by simp

text \<open>
  C1: a create request with a file, whose upload returns a secure URL and whose field
  values are valid for the schema (title, description and genre cast to non-empty
  strings, rating to a number in [0, 10], releaseDate to a date), is answered 201 with
  the stored document; the document has the new identifier, the cast values and
  imageUrl equal to the returned secure URL, it is appended to the collection, and a
  GET with the text of its identifier afterwards is answered 200 with the same document.
  The identifier given to the new document is not yet in the collection.
\<close>

theorem C1_create_then_get:
  assumes upfile: "req_file req = Some f"
    and up: "upload_stream e (buffer f) = Inr res" and url: "secure_url res \<noteq> []"
    and body: "req_body req = Some b"
    and t: "castString e ''title'' (f_title b) = Inr (Some t)" "t \<noteq> []"
    and ds: "castString e ''description'' (f_description b) = Inr (Some ds)" "ds \<noteq> []"
    and g: "castString e ''genre'' (f_genre b) = Inr (Some g)" "g \<noteq> []"
    and r: "castNumber e ''rating'' (f_rating b) = Inr (Some r)"
      "num_le (Fin 0) r" "num_le r (Fin 10)"
    and d: "castDate e ''releaseDate'' (f_releaseDate b) = Inr (Some d)"
    and fresh: "\<forall>m\<in>set (db st). mid m \<noteq> new_ObjectId e"
  defines "doc \<equiv>
     \<lparr> mid = new_ObjectId e, title = Some t, description = Some ds,
       imageUrl = Some (secure_url res), genre = Some g, rating = Some r,
       releaseDate = Some d \<rparr>"
  defines "st' \<equiv> st \<lparr> uploads := uploads st @ [buffer f], db := db st @ [doc] \<rparr>"
  shows "post_api_movies e st req = (\<lparr> status = 201, json = MovieJson doc \<rparr>, st') \<and>
         imageUrl doc = Some (secure_url res) \<and>
         (\<forall>req' :: request. params_id req' = toHexString (mid doc) \<longrightarrow>
            get_api_movies_id st' req' = (\<lparr> status = 200, json = MovieJson doc \<rparr>, st'))"
proof (intro conjI allI impI)
  have nm: "new_Movie e
       \<lparr> f_title = f_title b, f_description = f_description b,
         f_imageUrl = JStr (secure_url res), f_genre = f_genre b, f_rating = f_rating b,
         f_releaseDate = f_releaseDate b \<rparr> = ([], doc)"
    using t ds g r d
    by (simp add: new_Movie_def cast_paths_def cast_failed_def cast_value_def doc_def)
  have valid: "invalid_paths doc = []"
    using t ds g r url
    by (simp add: invalid_paths_def doc_def required_string_def rating_ok_def)
  have absent: "lookup (db st) (mid doc) = None"
    using fresh by (simp add: lookup_None_iff doc_def)
  have "save ([], doc) (db st) = Inr (doc, db st @ [doc])"
    using valid absent save_valid [of "([], doc)" "db st"] by simp
  with upfile up body nm
  show "post_api_movies e st req = (\<lparr> status = 201, json = MovieJson doc \<rparr>, st')"
    by (simp add: post_api_movies_def upload_image_def st'_def)
  show "imageUrl doc = Some (secure_url res)" by (simp add: doc_def)
  fix req' :: request
  assume "params_id req' = toHexString (mid doc)"
  moreover have "lookup (db st') (mid doc) = Some doc"
    using fresh lookup_append_fresh [of "db st" doc] by (simp add: st'_def doc_def)
  ultimately
  show "get_api_movies_id st' req' = (\<lparr> status = 200, json = MovieJson doc \<rparr>, st')"
    by (simp add: get_api_movies_id_def findById_def castObjectId_toHexString)
qed

theorem C1_create_then_get_witness:
  "post_api_movies demo_env empty_state
       \<lparr> params_id = [], req_body = Some inception,
         req_file = Some \<lparr> buffer = [255, 216, 255] \<rparr> \<rparr>
     = (\<lparr> status = 201, json = MovieJson inception_movie \<rparr>, inception_state) \<and>
   imageUrl inception_movie = Some ''https://res.cloudinary.com/demo/image/upload/a.jpg'' \<and>
   get_api_movies_id inception_state
       \<lparr> params_id = toHexString (mid inception_movie), req_body = None, req_file = None \<rparr>
     = (\<lparr> status = 200, json = MovieJson inception_movie \<rparr>, inception_state)"
  using C1_create_then_get
    [where req = "\<lparr> params_id = [], req_body = Some inception,
                    req_file = Some \<lparr> buffer = [255, 216, 255] \<rparr> \<rparr>"
       and f = "\<lparr> buffer = [255, 216, 255] \<rparr>" and e = demo_env
       and res = "\<lparr> secure_url = ''https://res.cloudinary.com/demo/image/upload/a.jpg'' \<rparr>"
       and b = inception and t = "''Inception''"
       and ds = "''A thief who steals secrets through dreams''" and g = "''Sci-Fi''"
       and r = "Fin 9" and d = 1279238400000 and st = empty_state]
  by (simp add: demo_defs date_or_fail_def castNumber_def own_id_def)

text \<open>
  C4: a create request whose rating casts to a number outside [0, 10] is rejected: the
  collection is unchanged and the answer is a failure, 400 when there is no file and 500
  (the validation error of \<^verbatim>\<open>save\<close>) when there is one.
\<close>

theorem C4_rating_out_of_range_rejected:
  assumes body: "req_body req = Some b"
    and r: "castNumber e ''rating'' (f_rating b) = Inr (Some n)"
    and out: "\<not> (num_le (Fin 0) n \<and> num_le n (Fin 10))"
  shows "db (snd (post_api_movies e st req)) = db st \<and>
         status (fst (post_api_movies e st req)) = (if req_file req = None then 400 else 500)"
proof -
  let ?nm = "\<lambda>u. new_Movie e
       \<lparr> f_title = f_title b, f_description = f_description b, f_imageUrl = JStr u,
         f_genre = f_genre b, f_rating = f_rating b, f_releaseDate = f_releaseDate b \<rparr>"
  have "\<not> rating_ok (rating (snd (?nm u)))" for u
    using r out by (simp add: new_Movie_def rating_ok_def cast_value_def)
  then have rejected: "\<exists>err. save (?nm u) c = Inl err" for u c
    using save_invalid_rating [OF rating_invalid, of "?nm u" c] by blast
  show ?thesis
  proof (cases "req_file req")
    case None
    then show ?thesis by (simp add: post_api_movies_def)
  next
    case (Some f)
    show ?thesis
    proof (cases "upload_stream e (buffer f)")
      case (Inl msg)
      with Some show ?thesis
        by (simp add: post_api_movies_def upload_image_def failure_def)
    next
      case (Inr result)
      from rejected [of "secure_url result" "db st"] obtain err
        where "save (?nm (secure_url result)) (db st) = Inl err" by blast
      with Some Inr body show ?thesis
        by (simp add: post_api_movies_def upload_image_def failure_def)
    qed
  qed
qed

theorem C4_rating_out_of_range_rejected_witness:
  "castNumber demo_env ''rating'' (JStr ''11'') = Inr (Some (Fin 11)) \<and>
   \<not> num_le (Fin 11) (Fin 10) \<and>
   db (snd (post_api_movies demo_env empty_state
              \<lparr> params_id = [], req_body = Some (inception \<lparr> f_rating := JStr ''11'' \<rparr>),
                req_file = Some \<lparr> buffer = [255, 216, 255] \<rparr> \<rparr>)) = [] \<and>
   status (fst (post_api_movies demo_env empty_state
              \<lparr> params_id = [], req_body = Some (inception \<lparr> f_rating := JStr ''11'' \<rparr>),
                req_file = Some \<lparr> buffer = [255, 216, 255] \<rparr> \<rparr>)) = 500"
  using C4_rating_out_of_range_rejected
    [where req = "\<lparr> params_id = [], req_body = Some (inception \<lparr> f_rating := JStr ''11'' \<rparr>),
                req_file = Some \<lparr> buffer = [255, 216, 255] \<rparr> \<rparr>"
       and b = "inception \<lparr> f_rating := JStr ''11'' \<rparr>" and e = demo_env and n = "Fin 11"
       and st = empty_state]
  by (simp add: demo_defs castNumber_def own_id_def)

section \<open>Reading and deleting a movie\<close>

text \<open>
  C8, as amended: GET by id answers 200 with the document when the identifier is
  well-formed and a stored document has it, 404 when it is well-formed and no document
  has it, and 500 with the CastError when it is malformed: a malformed identifier is not
  handled as a missing one. The state is unchanged in each case.
\<close>

theorem C8_get_by_id_amended:
  "(castObjectId (params_id req) = Some i \<and> (\<exists>m\<in>set (db st). mid m = i) \<longrightarrow>
      (\<exists>m\<in>set (db st). mid m = i \<and>
         get_api_movies_id st req = (\<lparr> status = 200, json = MovieJson m \<rparr>, st))) \<and>
   (castObjectId (params_id req) = Some i \<and> (\<forall>m\<in>set (db st). mid m \<noteq> i) \<longrightarrow>
      get_api_movies_id st req = (\<lparr> status = 404, json = Message ''Movie not found'' \<rparr>, st)) \<and>
   (castObjectId (params_id req) = None \<longrightarrow>
      get_api_movies_id st req =
        (\<lparr> status = 500,
           json = MessageError ''Error fetching movie'' (CastError ''_id'') \<rparr>, st))"
proof (intro conjI impI)
  assume a: "castObjectId (params_id req) = Some i \<and> (\<exists>m\<in>set (db st). mid m = i)"
  then have "lookup (db st) i \<noteq> None" by (simp add: lookup_None_iff)
  then obtain m where m: "lookup (db st) i = Some m" by blast
  with a have "get_api_movies_id st req = (\<lparr> status = 200, json = MovieJson m \<rparr>, st)"
    by (simp add: get_api_movies_id_def findById_def)
  with lookup_SomeD [OF m]
  show "\<exists>m\<in>set (db st). mid m = i \<and>
         get_api_movies_id st req = (\<lparr> status = 200, json = MovieJson m \<rparr>, st)"
    by blast
next
  assume "castObjectId (params_id req) = Some i \<and> (\<forall>m\<in>set (db st). mid m \<noteq> i)"
  then show "get_api_movies_id st req =
      (\<lparr> status = 404, json = Message ''Movie not found'' \<rparr>, st)"
    by (simp add: get_api_movies_id_def findById_def lookup_None_iff [symmetric])
next
  assume "castObjectId (params_id req) = None"
  then show "get_api_movies_id st req =
        (\<lparr> status = 500,
           json = MessageError ''Error fetching movie'' (CastError ''_id'') \<rparr>, st)"
    by (simp add: get_api_movies_id_def findById_def failure_def)
qed

theorem C8_get_by_id_amended_witness:
  "castObjectId ''507f1f77bcf86cd799439011'' = Some 0x507f1f77bcf86cd799439011 \<and>
   get_api_movies_id inception_state
       \<lparr> params_id = ''507f1f77bcf86cd799439011'', req_body = None, req_file = None \<rparr>
     = (\<lparr> status = 200, json = MovieJson inception_movie \<rparr>, inception_state) \<and>
   get_api_movies_id empty_state
       \<lparr> params_id = ''507f1f77bcf86cd799439011'', req_body = None, req_file = None \<rparr>
     = (\<lparr> status = 404, json = Message ''Movie not found'' \<rparr>, empty_state) \<and>
   castObjectId ''abc'' = None \<and>
   get_api_movies_id inception_state
       \<lparr> params_id = ''abc'', req_body = None, req_file = None \<rparr>
     = (\<lparr> status = 500,
          json = MessageError ''Error fetching movie'' (CastError ''_id'') \<rparr>, inception_state)"
  using
    C8_get_by_id_amended
      [of "\<lparr> params_id = ''507f1f77bcf86cd799439011'', req_body = None, req_file = None \<rparr>"
          "0x507f1f77bcf86cd799439011" inception_state]
    C8_get_by_id_amended
      [of "\<lparr> params_id = ''507f1f77bcf86cd799439011'', req_body = None, req_file = None \<rparr>"
          "0x507f1f77bcf86cd799439011" empty_state]
    C8_get_by_id_amended
      [of "\<lparr> params_id = ''abc'', req_body = None, req_file = None \<rparr>"
          "0x507f1f77bcf86cd799439011" inception_state]
  by (simp add: cast_demo_id castObjectId_def [of "''abc''"] inception_state_def empty_state_def
      inception_movie_def)

text \<open>The claim as stated fails: the malformed identifier \<^verbatim>\<open>abc\<close> is answered 500, a
  well-formed identifier that no document has is answered 404.\<close>

theorem C8_malformed_id_counterexample:
  "castObjectId ''abc'' = None \<and>
   fst (get_api_movies_id empty_state
          \<lparr> params_id = ''abc'', req_body = None, req_file = None \<rparr>)
     = \<lparr> status = 500, json = MessageError ''Error fetching movie'' (CastError ''_id'') \<rparr> \<and>
   fst (get_api_movies_id empty_state
          \<lparr> params_id = ''507f1f77bcf86cd799439011'', req_body = None, req_file = None \<rparr>)
     = \<lparr> status = 404, json = Message ''Movie not found'' \<rparr>"
  by (simp add: get_api_movies_id_def findById_def cast_demo_id castObjectId_def [of "''abc''"]
      failure_def lookup_def empty_state_def)

text \<open>
  C5, as amended: DELETE with a well-formed identifier that no document has answers 404
  and leaves the state unchanged; with the identifier of a stored document it answers 200
  with the confirmation message, the documents with that identifier are removed from the
  collection and the others kept, and every later GET for that identifier on the
  resulting state answers 404.
\<close>

theorem C5_delete_amended:
  assumes "castObjectId (params_id req) = Some i"
  shows "((\<forall>m\<in>set (db st). mid m \<noteq> i) \<longrightarrow>
            delete_api_movies_id st req =
              (\<lparr> status = 404, json = Message ''Movie not found'' \<rparr>, st)) \<and>
         ((\<exists>m\<in>set (db st). mid m = i) \<longrightarrow>
            (\<exists>st'. delete_api_movies_id st req =
                     (\<lparr> status = 200, json = Message ''Movie deleted successfully'' \<rparr>, st') \<and>
                   db st' = filter (\<lambda>m. mid m \<noteq> i) (db st) \<and>
                   uploads st' = uploads st \<and>
                   (\<forall>req'. castObjectId (params_id req') = Some i \<longrightarrow>
                      get_api_movies_id st' req' =
                        (\<lparr> status = 404, json = Message ''Movie not found'' \<rparr>, st'))))"
proof (intro conjI impI)
  assume "\<forall>m\<in>set (db st). mid m \<noteq> i"
  then have "lookup (db st) i = None" by (simp add: lookup_None_iff)
  with assms show "delete_api_movies_id st req =
      (\<lparr> status = 404, json = Message ''Movie not found'' \<rparr>, st)"
    by (simp add: delete_api_movies_id_def findByIdAndDelete_def filter_absent)
next
  assume "\<exists>m\<in>set (db st). mid m = i"
  then have "lookup (db st) i \<noteq> None" by (simp add: lookup_None_iff)
  then obtain m where m: "lookup (db st) i = Some m" by blast
  let ?st' = "st \<lparr> db := filter (\<lambda>m. mid m \<noteq> i) (db st) \<rparr>"
  have d: "delete_api_movies_id st req =
      (\<lparr> status = 200, json = Message ''Movie deleted successfully'' \<rparr>, ?st')"
    using assms m by (simp add: delete_api_movies_id_def findByIdAndDelete_def)
  have g: "get_api_movies_id ?st' req' =
      (\<lparr> status = 404, json = Message ''Movie not found'' \<rparr>, ?st')"
    if "castObjectId (params_id req') = Some i" for req'
    using that by (simp add: get_api_movies_id_def findById_def lookup_filter_other)
  from d g show "\<exists>st'. delete_api_movies_id st req =
                     (\<lparr> status = 200, json = Message ''Movie deleted successfully'' \<rparr>, st') \<and>
                   db st' = filter (\<lambda>m. mid m \<noteq> i) (db st) \<and>
                   uploads st' = uploads st \<and>
                   (\<forall>req'. castObjectId (params_id req') = Some i \<longrightarrow>
                      get_api_movies_id st' req' =
                        (\<lparr> status = 404, json = Message ''Movie not found'' \<rparr>, st'))"
    by (intro exI [of _ ?st']) simp
qed

theorem C5_delete_amended_witness:
  "castObjectId ''507f1f77bcf86cd799439011'' = Some 0x507f1f77bcf86cd799439011 \<and>
   delete_api_movies_id empty_state
       \<lparr> params_id = ''507f1f77bcf86cd799439011'', req_body = None, req_file = None \<rparr>
     = (\<lparr> status = 404, json = Message ''Movie not found'' \<rparr>, empty_state) \<and>
   delete_api_movies_id inception_state
       \<lparr> params_id = ''507f1f77bcf86cd799439011'', req_body = None, req_file = None \<rparr>
     = (\<lparr> status = 200, json = Message ''Movie deleted successfully'' \<rparr>,
        \<lparr> db = [], uploads = [[255, 216, 255]] \<rparr>) \<and>
   get_api_movies_id \<lparr> db = [], uploads = [[255, 216, 255]] \<rparr>
       \<lparr> params_id = ''507f1f77bcf86cd799439011'', req_body = None, req_file = None \<rparr>
     = (\<lparr> status = 404, json = Message ''Movie not found'' \<rparr>,
        \<lparr> db = [], uploads = [[255, 216, 255]] \<rparr>)"
  using
    C5_delete_amended
      [of "\<lparr> params_id = ''507f1f77bcf86cd799439011'', req_body = None, req_file = None \<rparr>"
          "0x507f1f77bcf86cd799439011" empty_state]
    C5_delete_amended
      [of "\<lparr> params_id = ''507f1f77bcf86cd799439011'', req_body = None, req_file = None \<rparr>"
          "0x507f1f77bcf86cd799439011" inception_state]
  by (simp add: cast_demo_id handler_defs demo_defs)

text \<open>The claim as stated fails: the malformed identifier \<^verbatim>\<open>abc\<close> has no matching
  document, and DELETE answers 500.\<close>

theorem C5_malformed_id_counterexample:
  "db empty_state = [] \<and>
   delete_api_movies_id empty_state
       \<lparr> params_id = ''abc'', req_body = None, req_file = None \<rparr>
     = (\<lparr> status = 500,
          json = MessageError ''Error deleting movie'' (CastError ''_id'') \<rparr>, empty_state)"
  by (simp add: handler_defs demo_defs castObjectId_def)

section \<open>Updating a movie\<close>

lemma put_no_file:
  assumes "castObjectId (params_id req) = Some i" and "lookup (db st) i = Some m"
    and "req_file req = None" and "req_body req = Some b"
  shows "put_api_movies_id e st req =
     (case findByIdAndUpdate e (db st) (params_id req)
             (update_of b m (js_string (imageUrl m))) of
        Inl err \<Rightarrow> (failure 400 ''Error updating movie'' err, st)
      | Inr (updatedMovie, c) \<Rightarrow>
          (\<lparr> status = 200,
             json = (case updatedMovie of None \<Rightarrow> NullJson | Some m \<Rightarrow> MovieJson m) \<rparr>,
           st \<lparr> db := c \<rparr>))"
  using assms by (simp add: put_api_movies_id_def findById_def)


text \<open>A stored value casts to itself.\<close>

lemma castString_stored: "castString e p (js_string old) = Inr old"
  by (cases old) (simp_all add: js_string_def)



lemma set_path_stored:
  "set_path (js_string s) s s = s" "set_path (js_number n) n n = n" "set_path (js_date d) d d = d"
  by (simp_all add: set_path_def)







text \<open>A rating supplied as the number 0 in a JSON body is falsy, so line 145 takes the
  previous rating: the update is answered 200 and the rating stays 9.\<close>

lemma numeric_zero_rating_is_not_applied:
  "put_api_movies_id demo_env inception_state
       \<lparr> params_id = ''507f1f77bcf86cd799439011'',
         req_body = Some (no_fields \<lparr> f_rating := JNum (Fin 0) \<rparr>),
         req_file = None \<rparr>
   = (\<lparr> status = 200, json = MovieJson inception_movie \<rparr>, inception_state) \<and>
   rating inception_movie = Some (Fin 9)"
  by (simp add: handler_defs demo_defs cast_demo_id)

lemma castUpdate_InrD:
  assumes "castUpdate e upd = Inr cu"
  shows "castString e ''title'' (f_title upd) = Inr (c_title cu)"
    and "castString e ''description'' (f_description upd) = Inr (c_description cu)"
    and "castString e ''imageUrl'' (f_imageUrl upd) = Inr (c_imageUrl cu)"
    and "castString e ''genre'' (f_genre upd) = Inr (c_genre cu)"
    and "castNumber e ''rating'' (f_rating upd) = Inr (c_rating cu)"
    and "castDate e ''releaseDate'' (f_releaseDate upd) = Inr (c_releaseDate cu)"
  using assms by (auto simp: castUpdate_def split: sum.splits)

text \<open>
  C6: for a stored document, a PUT with no file attached leaves its imageUrl as it was,
  whether the update succeeds or fails, and sends nothing to the upload service.
\<close>

theorem C6_put_without_file_keeps_imageUrl:
  assumes id: "castObjectId (params_id req) = Some i"
    and m: "lookup (db st) i = Some m"
    and nofile: "req_file req = None"
  shows "\<exists>m'. lookup (db (snd (put_api_movies_id e st req))) i = Some m' \<and>
              imageUrl m' = imageUrl m \<and>
              uploads (snd (put_api_movies_id e st req)) = uploads st"
proof (cases "req_body req")
  case None
  with id m nofile show ?thesis
    by (simp add: put_api_movies_id_def findById_def failure_def)
next
  case (Some b)
  let ?upd = "update_of b m (js_string (imageUrl m))"
  show ?thesis
  proof (cases "castUpdate e ?upd")
    case (Inl err)
    with id have "findByIdAndUpdate e (db st) (params_id req) ?upd = Inl err"
      by (simp add: findByIdAndUpdate_def)
    with put_no_file [OF id m nofile Some, of e] m show ?thesis
      by (simp add: failure_def)
  next
    case (Inr cu)
    with id have upd: "findByIdAndUpdate e (db st) (params_id req) ?upd =
        Inr (map_option (apply_update ?upd cu) (lookup (db st) i),
             map (\<lambda>x. if mid x = i then apply_update ?upd cu x else x) (db st))"
      by (simp add: findByIdAndUpdate_def)
    from castUpdate_InrD(3) [OF Inr] have "c_imageUrl cu = imageUrl m"
      by (simp add: update_of_def castString_stored)
    then have "imageUrl (apply_update ?upd cu m) = imageUrl m"
      by (simp add: apply_update_def update_of_def set_path_stored)
    with put_no_file [OF id m nofile Some, of e] upd m show ?thesis
      by (simp add: lookup_map_update mid_apply_update)
  qed
qed

theorem C6_put_without_file_keeps_imageUrl_witness:
  "castObjectId ''507f1f77bcf86cd799439011'' = Some 0x507f1f77bcf86cd799439011 \<and>
   lookup (db inception_state) 0x507f1f77bcf86cd799439011 = Some inception_movie \<and>
   lookup (db (snd (put_api_movies_id demo_env inception_state
                      \<lparr> params_id = ''507f1f77bcf86cd799439011'',
                        req_body = Some (no_fields \<lparr> f_title := JStr ''Inception II'' \<rparr>),
                        req_file = None \<rparr>))) 0x507f1f77bcf86cd799439011
     = Some (inception_movie \<lparr> title := Some ''Inception II'' \<rparr>) \<and>
   imageUrl (inception_movie \<lparr> title := Some ''Inception II'' \<rparr>) = imageUrl inception_movie"
  using C6_put_without_file_keeps_imageUrl
    [of "\<lparr> params_id = ''507f1f77bcf86cd799439011'',
           req_body = Some (no_fields \<lparr> f_title := JStr ''Inception II'' \<rparr>),
           req_file = None \<rparr>"
        "0x507f1f77bcf86cd799439011" inception_state inception_movie demo_env]
  by (simp add: cast_demo_id handler_defs demo_defs)

text \<open>
  C9: the imageUrl field of a request body is never read: two create requests, or two
  update requests, that differ only in that field get the same answer and leave the same
  state, so the stored imageUrl comes from the upload or from the stored document only.
\<close>

theorem C9_client_imageUrl_ignored:
  "post_api_movies e st (req \<lparr> req_body := Some (b \<lparr> f_imageUrl := v \<rparr>) \<rparr>)
     = post_api_movies e st (req \<lparr> req_body := Some b \<rparr>) \<and>
   put_api_movies_id e st (req \<lparr> req_body := Some (b \<lparr> f_imageUrl := v \<rparr>) \<rparr>)
     = put_api_movies_id e st (req \<lparr> req_body := Some b \<rparr>)"
  by (simp add: post_api_movies_def put_api_movies_id_def update_of_def
      split: option.splits sum.splits prod.splits)

theorem C9_client_imageUrl_ignored_witness:
  "post_api_movies demo_env empty_state
       \<lparr> params_id = [], req_body = Some (inception \<lparr> f_imageUrl := JStr ''http://evil/x.png'' \<rparr>),
         req_file = Some \<lparr> buffer = [255, 216, 255] \<rparr> \<rparr>
     = post_api_movies demo_env empty_state
       \<lparr> params_id = [], req_body = Some inception,
         req_file = Some \<lparr> buffer = [255, 216, 255] \<rparr> \<rparr> \<and>
   post_api_movies demo_env empty_state
       \<lparr> params_id = [], req_body = Some (inception \<lparr> f_imageUrl := JStr ''http://evil/x.png'' \<rparr>),
         req_file = Some \<lparr> buffer = [255, 216, 255] \<rparr> \<rparr>
     = (\<lparr> status = 201, json = MovieJson inception_movie \<rparr>, inception_state)"
  using C9_client_imageUrl_ignored
    [where e = demo_env and st = empty_state
       and req = "\<lparr> params_id = [], req_body = None,
                    req_file = Some \<lparr> buffer = [255, 216, 255] \<rparr> \<rparr>"
       and b = inception and v = "JStr ''http://evil/x.png''"]
  by (simp add: handler_defs demo_defs)

section \<open>Malformed identifiers\<close>

text \<open>
  C10: for an identifier that cannot be cast to an ObjectId, PUT answers 400 and DELETE
  answers 500, each with the CastError, neither answers 404, and the state is unchanged.
\<close>

theorem C10_malformed_id_put_delete:
  assumes "castObjectId (params_id req) = None"
  shows "put_api_movies_id e st req =
           (\<lparr> status = 400,
              json = MessageError ''Error updating movie'' (CastError ''_id'') \<rparr>, st) \<and>
         delete_api_movies_id st req =
           (\<lparr> status = 500,
              json = MessageError ''Error deleting movie'' (CastError ''_id'') \<rparr>, st)"
  using assms
  by (simp add: put_api_movies_id_def delete_api_movies_id_def findById_def
      findByIdAndDelete_def failure_def)

theorem C10_malformed_id_put_delete_witness:
  "castObjectId (params_id \<lparr> params_id = ''abc'', req_body = Some inception, req_file = None \<rparr>)
     = None \<and>
   put_api_movies_id demo_env inception_state
       \<lparr> params_id = ''abc'', req_body = Some inception, req_file = None \<rparr>
     = (\<lparr> status = 400,
          json = MessageError ''Error updating movie'' (CastError ''_id'') \<rparr>, inception_state) \<and>
   delete_api_movies_id inception_state
       \<lparr> params_id = ''abc'', req_body = Some inception, req_file = None \<rparr>
     = (\<lparr> status = 500,
          json = MessageError ''Error deleting movie'' (CastError ''_id'') \<rparr>, inception_state)"
  using C10_malformed_id_put_delete
    [of "\<lparr> params_id = ''abc'', req_body = Some inception, req_file = None \<rparr>"
        demo_env inception_state]
  by (simp add: castObjectId_def)

section \<open>Every stored document has its six fields\<close>



















end
